theory Spec2Isabelle
  imports Complex_Main
begin

section \<open>Data model of the DeepSeek completion adapter\<close>

text \<open>
  The development embeds \<^verbatim>\<open>DeepSeekClient.createChatCompletion\<close>
  (file \<^verbatim>\<open>src/lib/llm/DeepSeekClient.ts\<close>). JavaScript numbers are only copied or
  compared with zero by the adapter, so they are rationals here. Arrays are objects with
  identity: the message array of a request lives in a store and is named by its address,
  because the adapter mutates it in place (\<^verbatim>\<open>unshift\<close>) while the caller's request, the
  local \<^verbatim>\<open>options\<close> and \<^verbatim>\<open>cacheOptions\<close> all refer to the same array.

  A run is deterministic given its collaborators, so a promise is modelled by what it
  settles to. The logger does not throw; of a log event the category, the message and
  the level are kept, the auxiliary payload is left out. The request always has a
  message array (\<^verbatim>\<open>options.messages\<close> is read without a test in the source).
\<close>

type_synonym number = rat
type_synonym addr = nat

datatype json =
    JNull
  | JBool bool
  | JNum number
  | JStr string
  | JArr "json list"
  | JObj "(string \<times> json) list"

text \<open>
  Modelled from the spec: the declarations of \<^verbatim>\<open>ChatMessage\<close> and of its content parts
  are in \<^verbatim>\<open>LLMClient.ts\<close>, which is not among the sources. A message has a role and a
  content that is either a text or a list of parts; a part either has a \<^verbatim>\<open>text\<close>
  property (a text part) or has none (a non-text part, such as an image URL).
\<close>

datatype content_part = TextPart string | NonTextPart string

datatype content = Text string | Parts "content_part list"

record message =
  role :: string
  content :: content

text \<open>What the transport accepts per message: a role and a flat text.\<close>

record ChatCompletionMessageParam =
  param_role :: string
  param_content :: string

record tool =
  name :: string
  description :: string
  parameters :: json

record body_tool =
  tool_function :: tool
  tool_type :: string

record 's response_model =
  model_name :: string
  schema :: 's

text \<open>
  \<^verbatim>\<open>ChatCompletionOptions\<close>: \<open>messages\<close> is a reference to the caller's array.
\<close>

record 's ChatCompletionOptions =
  messages :: addr
  temperature :: "number option"
  top_p :: "number option"
  frequency_penalty :: "number option"
  presence_penalty :: "number option"
  maxTokens :: "number option"
  response_model :: "'s response_model option"
  tools :: "tool list option"
  requestId :: "string option"

text \<open>
  The object literal \<^verbatim>\<open>cacheOptions\<close> (lines 51-59). With \<open>'m = addr\<close> it is the object the
  adapter builds, whose \<open>messages\<close> field is a reference; with \<open>'m = message list\<close> it is
  what the cache collaborator reads from that object at the moment of a call.
\<close>

record ('m, 's) cacheOptions =
  co_model :: string
  co_messages :: 'm
  co_temperature :: "number option"
  co_top_p :: "number option"
  co_frequency_penalty :: "number option"
  co_presence_penalty :: "number option"
  co_response_model :: "'s response_model option"

type_synonym 's cache_key = "(message list, 's) cacheOptions"

text \<open>\<^verbatim>\<open>ChatCompletionCreateParamsNonStreaming\<close>, the request sent to the transport.\<close>

record body =
  body_model :: string
  body_messages :: "ChatCompletionMessageParam list"
  body_temperature :: "number option"
  max_tokens :: "number option"
  body_top_p :: "number option"
  body_frequency_penalty :: "number option"
  body_presence_penalty :: "number option"
  stream :: bool
  body_tools :: "body_tool list option"

text \<open>
  The transport's answer, as far as the adapter reads it:
  \<^verbatim>\<open>response.choices[0].message.content\<close>, a string or \<^verbatim>\<open>null\<close>.
\<close>

record response_choice =
  message_content :: "string option"

record response =
  response_id :: string
  choices :: "response_choice list"

text \<open>The error object a failed remote call throws; the adapter reads its \<^verbatim>\<open>status\<close>.\<close>

record transport_error =
  status :: "int option"
  error_message :: "string option"
  code :: "string option"

text \<open>
  Everything that can be thrown inside the \<^verbatim>\<open>try\<close> block or out of the function: the
  transport's error object, \<^verbatim>\<open>new Error(msg)\<close>, the \<^verbatim>\<open>TypeError\<close> of reading
  \<^verbatim>\<open>choices[0].message\<close> when there is no first choice, and the \<^verbatim>\<open>SyntaxError\<close> of
  \<^verbatim>\<open>JSON.parse\<close>.
\<close>

datatype thrown =
    APIError transport_error
  | Error string
  | TypeError
  | SyntaxError

text \<open>The result type \<open>T\<close>: the raw response, or the parsed data of a structured request.\<close>

datatype llm_value = Raw response | Parsed json

text \<open>What the collaborators observe, in order.\<close>

datatype 's event =
    CacheGet "'s cache_key" "string option"
  | CacheSet "'s cache_key" llm_value "string option"
  | TransportCall body
  | Log string string nat

text \<open>
  The collaborators the function calls and that are not among the sources, taken as
  parameters: the remote call \<^verbatim>\<open>client.chat.completions.create\<close> (its answer may depend
  on how many calls were made before and on the body), \<^verbatim>\<open>JSON.parse\<close> (\<open>None\<close> is a
  \<^verbatim>\<open>SyntaxError\<close>), \<^verbatim>\<open>validateZodSchema\<close> and \<^verbatim>\<open>JSON.stringify\<close> on a schema.
\<close>

record 's env =
  transport :: "nat \<Rightarrow> body \<Rightarrow> transport_error + response"
  JSON_parse :: "string \<Rightarrow> json option"
  validateZodSchema :: "'s \<Rightarrow> json \<Rightarrow> bool"
  JSON_stringify :: "'s \<Rightarrow> string"

text \<open>The fields of \<^verbatim>\<open>this\<close> that do not change.\<close>

record client =
  modelName :: string
  enableCaching :: bool

text \<open>
  Modelled from the spec: the class \<^verbatim>\<open>LLMCache\<close> is not among the sources. It is a
  keyed store: \<^verbatim>\<open>get(cacheKey, correlationId)\<close> answers the stored result or nothing,
  \<^verbatim>\<open>set(cacheKey, value, correlationId)\<close> stores one. Both read the contents of the key
  object at the moment they are called, and neither throws.
\<close>

type_synonym 's LLMCache = "'s cache_key \<rightharpoonup> llm_value"

text \<open>
  The mutable world: the store of message arrays, the cache (\<open>None\<close> when \<^verbatim>\<open>this.cache\<close>
  is undefined) and the number of remote calls made so far.
\<close>

record 's state =
  heap :: "addr \<Rightarrow> message list"
  cache :: "'s LLMCache option"
  calls :: nat

section \<open>The adapter\<close>

text \<open>JavaScript truthiness of a result (\<^verbatim>\<open>if (cachedResponse)\<close>).\<close>

fun truthy_json :: "json \<Rightarrow> bool" where
  "truthy_json JNull = False"
| "truthy_json (JBool b) = b"
| "truthy_json (JNum n) = (n \<noteq> 0)"
| "truthy_json (JStr s) = (s \<noteq> [])"
| "truthy_json (JArr xs) = True"
| "truthy_json (JObj kvs) = True"

fun truthy :: "llm_value \<Rightarrow> bool" where
  "truthy (Raw r) = True"
| "truthy (Parsed j) = truthy_json j"

text \<open>\<^verbatim>\<open>Array.prototype.join\<close> on strings.\<close>

fun join :: "string \<Rightarrow> string list \<Rightarrow> string" where
  "join sep [] = []"
| "join sep [x] = x"
| "join sep (x # y # ys) = x @ sep @ join sep (y # ys)"

text \<open>Lines 51-59.\<close>

definition mkCacheOptions :: "client \<Rightarrow> 's ChatCompletionOptions \<Rightarrow> (addr, 's) cacheOptions" where
  "mkCacheOptions this options =
     \<lparr> co_model = modelName this,
       co_messages = messages options,
       co_temperature = temperature options,
       co_top_p = top_p options,
       co_frequency_penalty = frequency_penalty options,
       co_presence_penalty = presence_penalty options,
       co_response_model = response_model options \<rparr>"

text \<open>Reading the key object through the store, as the cache does when it is called.\<close>

definition observe :: "(addr \<Rightarrow> message list) \<Rightarrow> (addr, 's) cacheOptions \<Rightarrow> 's cache_key" where
  "observe h co =
     \<lparr> co_model = co_model co,
       co_messages = h (co_messages co),
       co_temperature = co_temperature co,
       co_top_p = co_top_p co,
       co_frequency_penalty = co_frequency_penalty co,
       co_presence_penalty = co_presence_penalty co,
       co_response_model = co_response_model co \<rparr>"

text \<open>Line 62: \<^verbatim>\<open>await this.cache?.get(cacheOptions, requestId)\<close>.\<close>

definition cacheGet ::
  "'s state \<Rightarrow> (addr, 's) cacheOptions \<Rightarrow> string option \<Rightarrow> llm_value option \<times> 's event list" where
  "cacheGet s co rid =
     (case cache s of
        None \<Rightarrow> (None, [])
      | Some m \<Rightarrow> (m (observe (heap s) co), [CacheGet (observe (heap s) co) rid]))"

text \<open>Lines 166 and 173: \<^verbatim>\<open>this.cache?.set(cacheOptions, value, requestId)\<close>.\<close>

definition cacheSet ::
  "'s state \<Rightarrow> (addr, 's) cacheOptions \<Rightarrow> llm_value \<Rightarrow> string option \<Rightarrow> 's state \<times> 's event list" where
  "cacheSet s co v rid =
     (case cache s of
        None \<Rightarrow> (s, [])
      | Some m \<Rightarrow>
          (s\<lparr>cache := Some (m(observe (heap s) co \<mapsto> v))\<rparr>,
           [CacheSet (observe (heap s) co) v rid]))"

text \<open>Line 63: the cached response counts only when it is truthy.\<close>

definition ifTruthy :: "llm_value option \<Rightarrow> llm_value option" where
  "ifTruthy r = (case r of None \<Rightarrow> None | Some v \<Rightarrow> if truthy v then Some v else None)"

text \<open>Lines 96-101: the system message put in front of the message array.\<close>

definition systemInstruction :: "'s env \<Rightarrow> 's response_model \<Rightarrow> message" where
  "systemInstruction E rm =
     \<lparr> role = ''system'',
       content = Text (''Return response in this JSON format: '' @ JSON_stringify E (schema rm)
                       @ ''. Do not include any other text or markdown formatting.'') \<rparr>"

text \<open>\<^verbatim>\<open>options.messages.unshift(m)\<close>: the array at that address changes in place.\<close>

definition unshift :: "'s state \<Rightarrow> addr \<Rightarrow> message \<Rightarrow> 's state" where
  "unshift s a m = s\<lparr>heap := (heap s)(a := m # heap s a)\<rparr>"

text \<open>Lines 95-102: with a response model, the instruction is put in front of the array.\<close>

definition inject :: "'s env \<Rightarrow> 's ChatCompletionOptions \<Rightarrow> 's state \<Rightarrow> 's state" where
  "inject E options s =
     (case response_model options of
        Some rm \<Rightarrow> unshift s (messages options) (systemInstruction E rm)
      | None \<Rightarrow> s)"

text \<open>Lines 105-113.\<close>

definition partText :: "content_part \<Rightarrow> string" where
  "partText c = (case c of TextPart t \<Rightarrow> t | NonTextPart u \<Rightarrow> [])"

definition formatMessage :: "message \<Rightarrow> ChatCompletionMessageParam" where
  "formatMessage m =
     \<lparr> param_role = role m,
       param_content =
         (case content m of
            Parts cs \<Rightarrow> join ''\<newline>'' (filter (\<lambda>t. t \<noteq> []) (map partText cs))
          | Text t \<Rightarrow> t) \<rparr>"

definition formattedMessages :: "message list \<Rightarrow> ChatCompletionMessageParam list" where
  "formattedMessages ms = map formatMessage ms"

text \<open>Lines 115-132.\<close>

definition mkBody :: "client \<Rightarrow> 's ChatCompletionOptions \<Rightarrow> (addr \<Rightarrow> message list) \<Rightarrow> body" where
  "mkBody this options h =
     \<lparr> body_model = modelName this,
       body_messages = formattedMessages (h (messages options)),
       body_temperature = temperature options,
       max_tokens = maxTokens options,
       body_top_p = top_p options,
       body_frequency_penalty = frequency_penalty options,
       body_presence_penalty = presence_penalty options,
       stream = False,
       body_tools =
         map_option (map (\<lambda>t. \<lparr> tool_function = t, tool_type = ''function'' \<rparr>)) (tools options) \<rparr>"

text \<open>
  How the \<^verbatim>\<open>try\<close> block (lines 134-176) ends: it returns a value, it returns the
  promise of the recursive call of line 156 (which is not awaited, so the \<^verbatim>\<open>catch\<close>
  does not see what that call throws), or it throws into the \<^verbatim>\<open>catch\<close>.
\<close>

datatype try_outcome = Returned llm_value | RetryCall | Thrown thrown

definition tryBlock ::
  "'s env \<Rightarrow> client \<Rightarrow> 's ChatCompletionOptions \<Rightarrow> (addr, 's) cacheOptions \<Rightarrow> int \<Rightarrow> 's state \<Rightarrow> body
     \<Rightarrow> try_outcome \<times> 's state \<times> 's event list" where
  "tryBlock E this options co retries s b =
     (let s1 = s\<lparr>calls := Suc (calls s)\<rparr> in
      case transport E (calls s) b of
        Inl err \<Rightarrow> (Thrown (APIError err), s1, [TransportCall b])
      | Inr response \<Rightarrow>
         (let evs = [TransportCall b, Log ''deepseek'' ''response received'' 1] in
          case response_model options of
            Some rm \<Rightarrow>
              (case choices response of
                 [] \<Rightarrow> (Thrown TypeError, s1, evs)
               | choice # rest \<Rightarrow>
                  (case message_content choice of
                     None \<Rightarrow> (Thrown (Error ''No content in response''), s1, evs)
                   | Some extractedData \<Rightarrow>
                      if extractedData = [] then (Thrown (Error ''No content in response''), s1, evs)
                      else
                       (case JSON_parse E extractedData of
                          None \<Rightarrow> (Thrown SyntaxError, s1, evs)
                        | Some parsedData \<Rightarrow>
                           if \<not> validateZodSchema E (schema rm) parsedData then
                             (if retries > 0 then (RetryCall, s1, evs)
                              else (Thrown (Error ''Invalid response schema''), s1, evs))
                           else
                             (let (s2, evs2) =
                                    (if enableCaching this then cacheSet s1 co (Parsed parsedData) (requestId options)
                                     else (s1, []))
                              in (Returned (Parsed parsedData), s2, evs @ evs2)))))
          | None \<Rightarrow>
              (let (s2, evs2) =
                     (if enableCaching this then cacheSet s1 co (Raw response) (requestId options)
                      else (s1, []))
               in (Returned (Raw response), s2, evs @ evs2))))"

text \<open>\<^verbatim>\<open>error.status\<close> of whatever was caught.\<close>

definition statusOf :: "thrown \<Rightarrow> int option" where
  "statusOf e = (case e of APIError err \<Rightarrow> status err | _ \<Rightarrow> None)"

definition emit :: "'e list \<Rightarrow> 'r \<times> 'st \<times> 'e list \<Rightarrow> 'r \<times> 'st \<times> 'e list" where
  "emit evs x = (case x of (r, s, evs') \<Rightarrow> (r, s, evs @ evs'))"

text \<open>
  \<^verbatim>\<open>createChatCompletion\<close> (lines 43-208). The result is what the promise settles to
  (\<open>Inl\<close> a rejection, \<open>Inr\<close> the value), the world afterwards and the events in order.
  \<open>retries\<close> is the budget the call is given (3 when the caller gives none); it is an
  integer, and anything not above 0 allows no retry. The recursion is the source's own:
  both retries call the function again with \<^verbatim>\<open>optionsInitial\<close> and \<^verbatim>\<open>retries - 1\<close>, in
  the world the attempt has left.
\<close>

function createChatCompletion ::
  "'s env \<Rightarrow> client \<Rightarrow> 's ChatCompletionOptions \<Rightarrow> int \<Rightarrow> 's state
     \<Rightarrow> (thrown + llm_value) \<times> 's state \<times> 's event list" where
  "createChatCompletion E this optionsInitial retries s =
     (let options = optionsInitial;
          cacheOptions = mkCacheOptions this options;
          (cachedResponse, evs0) =
             (if enableCaching this then cacheGet s cacheOptions (requestId options) else (None, []))
      in case ifTruthy cachedResponse of
           Some v \<Rightarrow>
             (Inr v, s, evs0 @ [Log ''llm_cache'' ''LLM cache hit - returning cached response'' 1])
         | None \<Rightarrow>
            (let evs1 = evs0 @ [Log ''deepseek'' ''creating chat completion'' 1];
                 s1 = inject E options s;
                 b = mkBody this options (heap s1);
                 (outcome, s2, evs2) =
                    tryBlock E this options cacheOptions retries s1 b
             in case outcome of
                  Returned v \<Rightarrow> (Inr v, s2, evs1 @ evs2)
                | RetryCall \<Rightarrow>
                    emit (evs1 @ evs2) (createChatCompletion E this optionsInitial (retries - 1) s2)
                | Thrown error \<Rightarrow>
                   (let evs3 = evs1 @ evs2 @ [Log ''deepseek'' ''error creating chat completion'' 0] in
                    if statusOf error = Some 402 then
                      (Inl (Error ''DeepSeek API: Insufficient balance. Please add funds to your account.''),
                       s2, evs3)
                    else if retries > 0 then
                      emit evs3 (createChatCompletion E this optionsInitial (retries - 1) s2)
                    else (Inl error, s2, evs3))))"
  by pat_completeness auto
termination
  apply (relation "measure (\<lambda>(E, this, optionsInitial, retries, s). nat retries)")
    apply simp
   apply (auto simp: tryBlock_def Let_def
                split: sum.splits option.splits list.splits if_splits prod.splits)
  done

declare createChatCompletion.simps [simp del]

section \<open>Reading the events\<close>

fun transportCalls :: "'s event list \<Rightarrow> body list" where
  "transportCalls [] = []"
| "transportCalls (TransportCall b # evs) = b # transportCalls evs"
| "transportCalls (e # evs) = transportCalls evs"

fun cacheGets :: "'s event list \<Rightarrow> 's cache_key list" where
  "cacheGets [] = []"
| "cacheGets (CacheGet k rid # evs) = k # cacheGets evs"
| "cacheGets (e # evs) = cacheGets evs"

fun cacheSets :: "'s event list \<Rightarrow> ('s cache_key \<times> llm_value) list" where
  "cacheSets [] = []"
| "cacheSets (CacheSet k v rid # evs) = (k, v) # cacheSets evs"
| "cacheSets (e # evs) = cacheSets evs"

fun logLevels :: "'s event list \<Rightarrow> nat list" where
  "logLevels [] = []"
| "logLevels (Log category msg level # evs) = level # logLevels evs"
| "logLevels (e # evs) = logLevels evs"

definition result :: "'r \<times> 'st \<times> 'e list \<Rightarrow> 'r" where
  "result x = fst x"

definition world :: "'r \<times> 'st \<times> 'e list \<Rightarrow> 'st" where
  "world x = fst (snd x)"

definition events :: "'r \<times> 'st \<times> 'e list \<Rightarrow> 'e list" where
  "events x = snd (snd x)"

text \<open>The same event with another correlation identifier.\<close>

fun withRequestId :: "string option \<Rightarrow> 's event \<Rightarrow> 's event" where
  "withRequestId r (CacheGet k rid) = CacheGet k r"
| "withRequestId r (CacheSet k v rid) = CacheSet k v r"
| "withRequestId r (TransportCall b) = TransportCall b"
| "withRequestId r (Log category msg level) = Log category msg level"

section \<open>Vocabulary of the properties\<close>

text \<open>
  The lookup of lines 61-63 finds nothing it returns: caching is off, there is no cache,
  the key is absent, or the stored value is falsy.
\<close>

definition cacheMiss :: "client \<Rightarrow> 's ChatCompletionOptions \<Rightarrow> 's state \<Rightarrow> bool" where
  "cacheMiss this options s =
     (if enableCaching this
      then ifTruthy (fst (cacheGet s (mkCacheOptions this options) (requestId options))) = None
      else True)"

definition lookupEvents :: "client \<Rightarrow> 's ChatCompletionOptions \<Rightarrow> 's state \<Rightarrow> 's event list" where
  "lookupEvents this options s =
     (if enableCaching this
      then snd (cacheGet s (mkCacheOptions this options) (requestId options))
      else [])"

text \<open>
  The world a failed attempt leaves to the next one: the instruction has been put in
  front of the caller's array and one more remote call has been made.
\<close>

definition afterAttempt :: "'s env \<Rightarrow> 's ChatCompletionOptions \<Rightarrow> 's state \<Rightarrow> 's state" where
  "afterAttempt E options s = (inject E options s)\<lparr>calls := Suc (calls (inject E options s))\<rparr>"

primrec afterAttempts :: "'s env \<Rightarrow> 's ChatCompletionOptions \<Rightarrow> nat \<Rightarrow> 's state \<Rightarrow> 's state" where
  "afterAttempts E options 0 s = s"
| "afterAttempts E options (Suc k) s = afterAttempts E options k (afterAttempt E options s)"

text \<open>The body of an attempt that starts in world \<open>s\<close> (after a cache miss).\<close>

definition attemptBody :: "'s env \<Rightarrow> client \<Rightarrow> 's ChatCompletionOptions \<Rightarrow> 's state \<Rightarrow> body" where
  "attemptBody E this options s = mkBody this options (heap (inject E options s))"

text \<open>
  The textual content of an answer of the transport: the content of the first choice,
  when the call succeeded and that content is a non-empty string.
\<close>

definition textualContent :: "transport_error + response \<Rightarrow> string option" where
  "textualContent x =
     (case x of
        Inl err \<Rightarrow> None
      | Inr r \<Rightarrow>
         (case choices r of
            [] \<Rightarrow> None
          | choice # rest \<Rightarrow>
             (case message_content choice of
                None \<Rightarrow> None
              | Some t \<Rightarrow> if t = [] then None else Some t)))"

text \<open>The answer has textual content that is not valid JSON.\<close>

definition malformedJSON :: "'s env \<Rightarrow> transport_error + response \<Rightarrow> bool" where
  "malformedJSON E x =
     (case textualContent x of None \<Rightarrow> False | Some t \<Rightarrow> JSON_parse E t = None)"

text \<open>The answer has textual content that parses as JSON and fails the schema.\<close>

definition schemaMismatch :: "'s env \<Rightarrow> 's \<Rightarrow> transport_error + response \<Rightarrow> bool" where
  "schemaMismatch E sch x =
     (case textualContent x of
        None \<Rightarrow> False
      | Some t \<Rightarrow>
         (case JSON_parse E t of None \<Rightarrow> False | Some j \<Rightarrow> \<not> validateZodSchema E sch j))"

text \<open>The remote call failed with an error whose status is not 402.\<close>

definition otherFailure :: "transport_error + response \<Rightarrow> bool" where
  "otherFailure x = (case x of Inl err \<Rightarrow> status err \<noteq> Some 402 | Inr r \<Rightarrow> False)"

text \<open>
  The flattening as the specification words it: the text parts in their order, joined by
  newline, the non-text parts dropped.
\<close>

fun textParts :: "content_part list \<Rightarrow> string list" where
  "textParts [] = []"
| "textParts (TextPart t # cs) = t # textParts cs"
| "textParts (NonTextPart u # cs) = textParts cs"

definition spec_flatten :: "content_part list \<Rightarrow> string" where
  "spec_flatten cs = join ''\<newline>'' (textParts cs)"

section \<open>A concrete client\<close>

text \<open>
  Two schemas (\<^verbatim>\<open>z.number()\<close> and \<^verbatim>\<open>z.boolean()\<close>), a parser for four texts and
  a request with one user message, used to run the adapter on concrete inputs.
\<close>

datatype zod = ZNumber | ZBoolean

fun ex_validate :: "zod \<Rightarrow> json \<Rightarrow> bool" where
  "ex_validate ZNumber (JNum n) = True"
| "ex_validate ZBoolean (JBool b) = True"
| "ex_validate z j = False"

fun ex_stringify :: "zod \<Rightarrow> string" where
  "ex_stringify ZNumber = ''{type:number}''"
| "ex_stringify ZBoolean = ''{type:boolean}''"

definition ex_parse :: "string \<Rightarrow> json option" where
  "ex_parse t =
     (if t = ''4'' then Some (JNum 4)
      else if t = ''0'' then Some (JNum 0)
      else if t = ''true'' then Some (JBool True)
      else if t = ''null'' then Some JNull
      else None)"

definition ex_always ::
  "transport_error + response \<Rightarrow> nat \<Rightarrow> body \<Rightarrow> transport_error + response" where
  "ex_always x i b = x"

definition ex_empty :: "(zod cache_key \<rightharpoonup> llm_value) option" where
  "ex_empty = Some Map.empty"

definition ex_answer :: "string \<Rightarrow> transport_error + response" where
  "ex_answer t = Inr \<lparr> response_id = ''r'', choices = [\<lparr> message_content = Some t \<rparr>] \<rparr>"

definition ex_failure :: "int \<Rightarrow> transport_error + response" where
  "ex_failure st = Inl \<lparr> status = Some st, error_message = Some ''failed'', code = None \<rparr>"

definition ex_env :: "(nat \<Rightarrow> body \<Rightarrow> transport_error + response) \<Rightarrow> zod env" where
  "ex_env tr =
     \<lparr> transport = tr, JSON_parse = ex_parse, validateZodSchema = ex_validate,
       JSON_stringify = ex_stringify \<rparr>"

definition ex_client :: "bool \<Rightarrow> client" where
  "ex_client caching = \<lparr> modelName = ''deepseek-chat'', enableCaching = caching \<rparr>"

definition ex_options :: "zod response_model option \<Rightarrow> zod ChatCompletionOptions" where
  "ex_options rm =
     \<lparr> messages = 0, temperature = None, top_p = None, frequency_penalty = None,
       presence_penalty = None, maxTokens = None, response_model = rm, tools = None,
       requestId = Some ''req-1'' \<rparr>"

definition ex_number :: "zod response_model option" where
  "ex_number = Some \<lparr> model_name = ''answer'', schema = ZNumber \<rparr>"

definition ex_user :: message where
  "ex_user = \<lparr> role = ''user'', content = Text ''2+2?'' \<rparr>"

definition ex_parts :: message where
  "ex_parts =
     \<lparr> role = ''user'',
       content = Parts [TextPart ''a'', NonTextPart ''u'', TextPart [], TextPart ''b''] \<rparr>"

definition ex_state :: "(zod cache_key \<rightharpoonup> llm_value) option \<Rightarrow> zod state" where
  "ex_state c = \<lparr> heap = (\<lambda>a. if a = 0 then [ex_user] else []), cache = c, calls = 0 \<rparr>"

text \<open>The key of that request as the caller wrote it, and a cache holding one entry there.\<close>

definition ex_key :: "zod cache_key" where
  "ex_key = observe (heap (ex_state None)) (mkCacheOptions (ex_client True) (ex_options ex_number))"

definition ex_cached :: "llm_value \<Rightarrow> (zod cache_key \<rightharpoonup> llm_value) option" where
  "ex_cached v = Some [ex_key \<mapsto> v]"

definition ex_instruction :: message where
  "ex_instruction =
     systemInstruction (ex_env (ex_always (ex_answer ''4'')))
       \<lparr> model_name = ''answer'', schema = ZNumber \<rparr>"


section \<open>One invocation, unfolded\<close>

text \<open>
  An invocation either returns from the cache or goes on to the \<^verbatim>\<open>try\<close> block; in the
  second case its result is decided by how the block ends.
\<close>

lemma createChatCompletion_miss:
  assumes "cacheMiss this options s"
    and "tryBlock E this options (mkCacheOptions this options) retries (inject E options s)
           (attemptBody E this options s) = (outcome, s2, evs2)"
  shows "createChatCompletion E this options retries s =
    (let pre = lookupEvents this options s @ [Log ''deepseek'' ''creating chat completion'' 1] in
     case outcome of
       Returned v \<Rightarrow> (Inr v, s2, pre @ evs2)
     | RetryCall \<Rightarrow> emit (pre @ evs2) (createChatCompletion E this options (retries - 1) s2)
     | Thrown error \<Rightarrow>
        (let evs3 = pre @ evs2 @ [Log ''deepseek'' ''error creating chat completion'' 0] in
         if statusOf error = Some 402 then
           (Inl (Error ''DeepSeek API: Insufficient balance. Please add funds to your account.''), s2, evs3)
         else if retries > 0 then emit evs3 (createChatCompletion E this options (retries - 1) s2)
         else (Inl error, s2, evs3)))"
  using assms
  apply (subst createChatCompletion.simps)
  apply (cases "cacheGet s (mkCacheOptions this options) (requestId options)")
  apply (cases "enableCaching this"; cases outcome)
   apply (simp_all add: cacheMiss_def lookupEvents_def attemptBody_def ifTruthy_def Let_def)
  done

lemma createChatCompletion_hit:
  assumes "enableCaching this" 
    and "cacheGet s (mkCacheOptions this options) (requestId options) = (Some v, evs0)" "truthy v"
  shows "createChatCompletion E this options retries s =
    (Inr v, s, evs0 @ [Log ''llm_cache'' ''LLM cache hit - returning cached response'' 1])"
  using assms
  apply (subst createChatCompletion.simps)
  apply (simp add: ifTruthy_def Let_def)
  done

lemma cacheMiss_or_hit:
  "cacheMiss this options s \<or>
   (\<exists>v evs0. enableCaching this \<and> truthy v \<and> cacheSets evs0 = [] \<and> transportCalls evs0 = []
      \<and> cacheGet s (mkCacheOptions this options) (requestId options) = (Some v, evs0))"
  by (auto simp: cacheMiss_def ifTruthy_def cacheGet_def split: option.splits if_splits)

lemma tryBlock_schemaMismatch:
  assumes "response_model options = Some rm" "schemaMismatch E (schema rm) (transport E (calls s) b)"
  shows "tryBlock E this options co retries s b =
     (if retries > 0 then RetryCall else Thrown (Error ''Invalid response schema''),
      s\<lparr>calls := Suc (calls s)\<rparr>, [TransportCall b, Log ''deepseek'' ''response received'' 1])"
  using assms
  by (auto simp: tryBlock_def schemaMismatch_def textualContent_def Let_def
      split: sum.splits list.splits option.splits if_splits)

lemma tryBlock_malformedJSON:
  assumes "response_model options = Some rm" "malformedJSON E (transport E (calls s) b)"
  shows "tryBlock E this options co retries s b =
     (Thrown SyntaxError,
      s\<lparr>calls := Suc (calls s)\<rparr>, [TransportCall b, Log ''deepseek'' ''response received'' 1])"
  using assms
  by (auto simp: tryBlock_def malformedJSON_def textualContent_def Let_def
      split: sum.splits list.splits option.splits if_splits)

lemma tryBlock_failure:
  assumes "transport E (calls s) b = Inl err"
  shows "tryBlock E this options co retries s b =
     (Thrown (APIError err), s\<lparr>calls := Suc (calls s)\<rparr>, [TransportCall b])"
  using assms
  by (simp add: tryBlock_def Let_def)

lemma tryBlock_RetryCall_pos:
  "tryBlock E this options co retries s b = (RetryCall, s', evs) \<Longrightarrow> retries > 0"
  by (auto simp: tryBlock_def Let_def
      split: sum.splits option.splits list.splits if_splits prod.splits)

lemma tryBlock_transportCalls:
  "tryBlock E this options co retries s b = (outcome, s2, evs2) \<Longrightarrow> transportCalls evs2 = [b]"
  by (auto simp: tryBlock_def cacheSet_def Let_def
      split: sum.splits option.splits list.splits if_splits prod.splits)

lemma tryBlock_structured:
  assumes "response_model options = Some rm"
    and "tryBlock E this options co retries s b = (outcome, s2, evs2)"
  shows "((\<forall>v. outcome \<noteq> Returned v) \<and> cacheSets evs2 = [])
       \<or> (\<exists>j t. outcome = Returned (Parsed j)
              \<and> textualContent (transport E (calls s) b) = Some t \<and> JSON_parse E t = Some j
              \<and> validateZodSchema E (schema rm) j
              \<and> (evs2 = [TransportCall b, Log ''deepseek'' ''response received'' 1]
                 \<or> (\<exists>k rid. evs2 = [TransportCall b, Log ''deepseek'' ''response received'' 1,
                                       CacheSet k (Parsed j) rid])))"
  using assms
  by (auto simp: tryBlock_def cacheSet_def textualContent_def Let_def
      split: sum.splits option.splits list.splits if_splits prod.splits)

section \<open>Events of composed runs\<close>

lemma result_emit [simp]: "result (emit evs x) = result x"
  by (cases x) (simp add: result_def emit_def)

lemma world_emit [simp]: "world (emit evs x) = world x"
  by (cases x) (simp add: world_def emit_def)

lemma events_emit [simp]: "events (emit evs x) = evs @ events x"
  by (cases x) (simp add: events_def emit_def)

lemma result_triple [simp]: "result (r, s, evs) = r"
  by (simp add: result_def)

lemma world_triple [simp]: "world (r, s, evs) = s"
  by (simp add: world_def)

lemma events_triple [simp]: "events (r, s, evs) = evs"
  by (simp add: events_def)

lemma transportCalls_append [simp]:
  "transportCalls (xs @ ys) = transportCalls xs @ transportCalls ys"
  by (induction xs rule: transportCalls.induct) simp_all

lemma cacheSets_append [simp]: "cacheSets (xs @ ys) = cacheSets xs @ cacheSets ys"
  by (induction xs rule: cacheSets.induct) simp_all

lemma cacheGets_append [simp]: "cacheGets (xs @ ys) = cacheGets xs @ cacheGets ys"
  by (induction xs rule: cacheGets.induct) simp_all

lemma logLevels_append [simp]: "logLevels (xs @ ys) = logLevels xs @ logLevels ys"
  by (induction xs rule: logLevels.induct) simp_all

lemma transportCalls_lookupEvents [simp]: "transportCalls (lookupEvents this options s) = []"
  by (simp add: lookupEvents_def cacheGet_def split: option.splits)

lemma cacheSets_lookupEvents [simp]: "cacheSets (lookupEvents this options s) = []"
  by (simp add: lookupEvents_def cacheGet_def split: option.splits)

lemma logLevels_lookupEvents [simp]: "logLevels (lookupEvents this options s) = []"
  by (simp add: lookupEvents_def cacheGet_def split: option.splits)

lemma calls_inject [simp]: "calls (inject E options s) = calls s"
  by (simp add: inject_def unshift_def split: option.splits)

lemma cache_inject [simp]: "cache (inject E options s) = cache s"
  by (simp add: inject_def unshift_def split: option.splits)

lemma cache_afterAttempts [simp]: "cache (afterAttempts E options k s) = cache s"
  by (induction k arbitrary: s) (simp_all add: afterAttempt_def)

lemma cacheMiss_no_entries:
  "cache s = None \<or> cache s = Some Map.empty \<Longrightarrow> cacheMiss this options s"
  by (auto simp: cacheMiss_def cacheGet_def ifTruthy_def)

text \<open>One failed attempt, whatever was thrown, as long as its status is not 402.\<close>

lemma createChatCompletion_thrown:
  assumes "cacheMiss this options s"
    and "tryBlock E this options (mkCacheOptions this options) retries (inject E options s)
           (attemptBody E this options s) = (Thrown e, afterAttempt E options s, evs2)"
    and "statusOf e \<noteq> Some 402"
  shows "createChatCompletion E this options retries s =
     (if retries > 0
      then emit (lookupEvents this options s @ [Log ''deepseek'' ''creating chat completion'' 1] @ evs2
                 @ [Log ''deepseek'' ''error creating chat completion'' 0])
             (createChatCompletion E this options (retries - 1) (afterAttempt E options s))
      else (Inl e, afterAttempt E options s,
            lookupEvents this options s @ [Log ''deepseek'' ''creating chat completion'' 1] @ evs2
            @ [Log ''deepseek'' ''error creating chat completion'' 0]))"
  using createChatCompletion_miss [OF assms(1,2)] assms(3) by (simp add: Let_def)

section \<open>The cache-hit path\<close>

text \<open>
  Claim C5, amended. For every request with caching enabled, if the cache lookup for the
  request's key returns a truthy value \<open>V\<close>, \<open>createChatCompletion\<close> returns exactly
  \<open>V\<close>, makes no transport call and no cache write, and logs one event, of level 1.
\<close>

theorem truthy_cache_hit_returns_cached_value:
  assumes "enableCaching this"
    and "cache s = Some m"
    and "m (observe (heap s) (mkCacheOptions this options)) = Some V"
    and "truthy V"
  shows "result (createChatCompletion E this options retries s) = Inr V
       \<and> transportCalls (events (createChatCompletion E this options retries s)) = []
       \<and> logLevels (events (createChatCompletion E this options retries s)) = [1]
       \<and> cacheSets (events (createChatCompletion E this options retries s)) = []"
proof -
  have "cacheGet s (mkCacheOptions this options) (requestId options)
      = (Some V, [CacheGet (observe (heap s) (mkCacheOptions this options)) (requestId options)])"
    using assms(2,3) by (simp add: cacheGet_def)
  from createChatCompletion_hit [OF assms(1) this assms(4)] show ?thesis by simp
qed

theorem truthy_cache_hit_returns_cached_value_witness:
  "result (createChatCompletion (ex_env (ex_always (ex_failure 500))) (ex_client True)
      (ex_options ex_number) 3 (ex_state (ex_cached (Parsed (JNum 4))))) = Inr (Parsed (JNum 4))
   \<and> transportCalls (events (createChatCompletion (ex_env (ex_always (ex_failure 500))) (ex_client True)
      (ex_options ex_number) 3 (ex_state (ex_cached (Parsed (JNum 4)))))) = []
   \<and> logLevels (events (createChatCompletion (ex_env (ex_always (ex_failure 500))) (ex_client True)
      (ex_options ex_number) 3 (ex_state (ex_cached (Parsed (JNum 4)))))) = [1]
   \<and> cacheSets (events (createChatCompletion (ex_env (ex_always (ex_failure 500))) (ex_client True)
      (ex_options ex_number) 3 (ex_state (ex_cached (Parsed (JNum 4)))))) = []"
proof -
  have on: "enableCaching (ex_client True)" by (simp add: ex_client_def)
  have c: "cache (ex_state (ex_cached (Parsed (JNum 4)))) = Some [ex_key \<mapsto> Parsed (JNum 4)]"
    by (simp add: ex_state_def ex_cached_def)
  have k: "[ex_key \<mapsto> Parsed (JNum 4)]
        (observe (heap (ex_state (ex_cached (Parsed (JNum 4)))))
           (mkCacheOptions (ex_client True) (ex_options ex_number))) = Some (Parsed (JNum 4))"
    by (simp add: ex_key_def ex_state_def observe_def)
  have t: "truthy (Parsed (JNum 4))" by simp
  show ?thesis
    using truthy_cache_hit_returns_cached_value [OF on c k t] by simp
qed

text \<open>
  The claim as first worded does not ask for a truthy value. Line 63 tests
  \<^verbatim>\<open>if (cachedResponse)\<close>: when the cache returns the number 0 (a value that a
  \<^verbatim>\<open>z.number()\<close> request can have stored), the adapter calls the transport and returns
  the new answer instead.
\<close>

theorem falsy_cache_entry_is_not_returned:
  "fst (cacheGet (ex_state (ex_cached (Parsed (JNum 0))))
          (mkCacheOptions (ex_client True) (ex_options ex_number)) (requestId (ex_options ex_number)))
     = Some (Parsed (JNum 0))
   \<and> length (transportCalls (events (createChatCompletion (ex_env (ex_always (ex_answer ''4'')))
        (ex_client True) (ex_options ex_number) 0 (ex_state (ex_cached (Parsed (JNum 0))))))) = 1
   \<and> result (createChatCompletion (ex_env (ex_always (ex_answer ''4'')))
        (ex_client True) (ex_options ex_number) 0 (ex_state (ex_cached (Parsed (JNum 0)))))
     = Inr (Parsed (JNum 4))"
  by code_simp

section \<open>Retry bound under schema mismatch\<close>




section \<open>What a retry sends\<close>

text \<open>
  The retry passes \<^verbatim>\<open>optionsInitial\<close>, which is the very object whose message array the
  failed attempt has changed. After \<open>k\<close> failed attempts the array holds \<open>k\<close> copies of
  the instruction, and the next body one more.
\<close>

lemma heap_afterAttempts:
  assumes "response_model options = Some rm"
  shows "heap (afterAttempts E options k s) (messages options)
       = replicate k (systemInstruction E rm) @ heap s (messages options)"
proof (induction k arbitrary: s)
  case 0
  show ?case by simp
next
  case (Suc k)
  have "heap (afterAttempt E options s) (messages options)
      = systemInstruction E rm # heap s (messages options)"
    using assms by (simp add: afterAttempt_def inject_def unshift_def)
  then show ?case using Suc.IH [of "afterAttempt E options s"]
    by (simp add: replicate_app_Cons_same)
qed

lemma attemptBody_afterAttempts:
  assumes "response_model options = Some rm"
  shows "body_messages (attemptBody E this options (afterAttempts E options k s))
       = formattedMessages (replicate (Suc k) (systemInstruction E rm) @ heap s (messages options))"
  using heap_afterAttempts [OF assms, of E k s] assms
  by (simp add: attemptBody_def mkBody_def inject_def unshift_def)

lemma schema_mismatch_bodies:
  assumes "response_model options = Some rm"
    and "\<forall>i b. schemaMismatch E (schema rm) (transport E i b)"
    and "\<forall>k\<le>n. cacheMiss this options (afterAttempts E options k s)"
  shows "transportCalls (events (createChatCompletion E this options (int n) s))
       = map (\<lambda>k. attemptBody E this options (afterAttempts E options k s)) [0..<Suc n]"
  using assms(3)
proof (induction n arbitrary: s)
  case 0
  then have miss: "cacheMiss this options s" by simp
  have tb: "tryBlock E this options (mkCacheOptions this options) 0 (inject E options s)
           (attemptBody E this options s)
        = (Thrown (Error ''Invalid response schema''), afterAttempt E options s,
           [TransportCall (attemptBody E this options s), Log ''deepseek'' ''response received'' 1])"
    using tryBlock_schemaMismatch [OF assms(1), of E "inject E options s"] assms(2)
    by (simp add: afterAttempt_def)
  show ?case
    using createChatCompletion_thrown [OF miss tb] by (simp add: statusOf_def)
next
  case (Suc n)
  then have miss: "cacheMiss this options s" by (metis afterAttempts.simps(1) le0)
  have rest: "\<forall>k\<le>n. cacheMiss this options (afterAttempts E options k (afterAttempt E options s))"
    using Suc.prems by (metis Suc_le_mono afterAttempts.simps(2))
  have tb: "tryBlock E this options (mkCacheOptions this options) (int (Suc n)) (inject E options s)
           (attemptBody E this options s)
        = (RetryCall, afterAttempt E options s,
           [TransportCall (attemptBody E this options s), Log ''deepseek'' ''response received'' 1])"
    using tryBlock_schemaMismatch [OF assms(1), of E "inject E options s"] assms(2)
    by (simp add: afterAttempt_def)
  have "createChatCompletion E this options (int (Suc n)) s =
      emit (lookupEvents this options s @ [Log ''deepseek'' ''creating chat completion'' 1,
              TransportCall (attemptBody E this options s), Log ''deepseek'' ''response received'' 1])
        (createChatCompletion E this options (int n) (afterAttempt E options s))"
    using createChatCompletion_miss [OF miss tb] by (simp add: Let_def)
  then have "transportCalls (events (createChatCompletion E this options (int (Suc n)) s))
      = attemptBody E this options s
        # map (\<lambda>k. attemptBody E this options (afterAttempts E options (Suc k) s)) [0..<Suc n]"
    using Suc.IH [OF rest] by simp
  also have "\<dots> = map (\<lambda>k. attemptBody E this options (afterAttempts E options k s)) [0..<Suc (Suc n)]"
    by (simp only: map_upt_Suc [of _ "Suc n"] afterAttempts.simps(1))
  finally show ?case .
qed

lemma retries_accumulate_instructions:
  assumes "response_model options = Some rm"
    and "\<forall>i b. schemaMismatch E (schema rm) (transport E i b)"
    and "\<forall>k\<le>n. cacheMiss this options (afterAttempts E options k s)"
  shows "map body_messages (transportCalls (events (createChatCompletion E this options (int n) s)))
       = map (\<lambda>k. formattedMessages
                     (replicate (Suc k) (systemInstruction E rm) @ heap s (messages options)))
           [0..<Suc n]"
  unfolding schema_mismatch_bodies [OF assms] map_map comp_def
    attemptBody_afterAttempts [OF assms(1)] ..

text \<open>
  Claim C1 asks that the message list of a retry hold the injected instruction at most
  once. The run below has one user message, a \<^verbatim>\<open>z.number()\<close> response model, budget 1
  and a transport that answers \<^verbatim>\<open>true\<close>: the second call carries the instruction
  twice.
\<close>

theorem retry_sends_instruction_twice:
  "map body_messages (transportCalls (events (createChatCompletion
        (ex_env (ex_always (ex_answer ''true''))) (ex_client False) (ex_options ex_number) 1
        (ex_state None))))
     = [formattedMessages [ex_instruction, ex_user],
        formattedMessages [ex_instruction, ex_instruction, ex_user]]"
  by code_simp

section \<open>Malformed JSON\<close>

text \<open>
  Claim C2, amended. \<^verbatim>\<open>JSON.parse\<close> runs inside the \<^verbatim>\<open>try\<close> block, so its
  \<^verbatim>\<open>SyntaxError\<close> reaches the \<^verbatim>\<open>catch\<close> and is retried like any other error: for a
  structured-output request whose every transport answer has textual content that is
  not valid JSON, and whose cache lookups find nothing to return,
  \<open>createChatCompletion\<close> with retry budget \<open>n\<close> performs exactly \<open>n + 1\<close> transport
  calls and then fails with the parse error.
\<close>

theorem malformed_json_retry_bound:
  assumes "response_model options = Some rm"
    and "\<forall>i b. malformedJSON E (transport E i b)"
    and "\<forall>k\<le>n. cacheMiss this options (afterAttempts E options k s)"
  shows "length (transportCalls (events (createChatCompletion E this options (int n) s))) = n + 1
       \<and> result (createChatCompletion E this options (int n) s) = Inl SyntaxError"
  using assms(3)
proof (induction n arbitrary: s)
  case 0
  then have miss: "cacheMiss this options s" by simp
  have tb: "tryBlock E this options (mkCacheOptions this options) 0 (inject E options s)
           (attemptBody E this options s)
        = (Thrown SyntaxError, afterAttempt E options s,
           [TransportCall (attemptBody E this options s), Log ''deepseek'' ''response received'' 1])"
    using tryBlock_malformedJSON [OF assms(1), of E "inject E options s"] assms(2)
    by (simp add: afterAttempt_def)
  show ?case
    using createChatCompletion_thrown [OF miss tb] by (simp add: statusOf_def)
next
  case (Suc n)
  then have miss: "cacheMiss this options s" by (metis afterAttempts.simps(1) le0)
  have rest: "\<forall>k\<le>n. cacheMiss this options (afterAttempts E options k (afterAttempt E options s))"
    using Suc.prems by (metis Suc_le_mono afterAttempts.simps(2))
  have tb: "tryBlock E this options (mkCacheOptions this options) (int (Suc n)) (inject E options s)
           (attemptBody E this options s)
        = (Thrown SyntaxError, afterAttempt E options s,
           [TransportCall (attemptBody E this options s), Log ''deepseek'' ''response received'' 1])"
    using tryBlock_malformedJSON [OF assms(1), of E "inject E options s"] assms(2)
    by (simp add: afterAttempt_def)
  have "createChatCompletion E this options (int (Suc n)) s =
      emit (lookupEvents this options s @ [Log ''deepseek'' ''creating chat completion'' 1,
              TransportCall (attemptBody E this options s), Log ''deepseek'' ''response received'' 1,
              Log ''deepseek'' ''error creating chat completion'' 0])
        (createChatCompletion E this options (int n) (afterAttempt E options s))"
    using createChatCompletion_thrown [OF miss tb] by (simp add: statusOf_def)
  then show ?case using Suc.IH [OF rest] by simp
qed

theorem malformed_json_retry_bound_witness:
  "length (transportCalls (events (createChatCompletion (ex_env (ex_always (ex_answer ''four'')))
      (ex_client True) (ex_options ex_number) 2 (ex_state ex_empty)))) = 3
   \<and> result (createChatCompletion (ex_env (ex_always (ex_answer ''four'')))
      (ex_client True) (ex_options ex_number) 2 (ex_state ex_empty)) = Inl SyntaxError"
proof -
  have rm: "response_model (ex_options ex_number) = Some \<lparr> model_name = ''answer'', schema = ZNumber \<rparr>"
    by (simp add: ex_options_def ex_number_def)
  have bad: "\<forall>i b. malformedJSON (ex_env (ex_always (ex_answer ''four'')))
      (transport (ex_env (ex_always (ex_answer ''four''))) i b)"
    by (simp add: malformedJSON_def textualContent_def ex_env_def ex_always_def ex_answer_def
        ex_parse_def)
  have miss: "\<forall>k\<le>2. cacheMiss (ex_client True) (ex_options ex_number)
      (afterAttempts (ex_env (ex_always (ex_answer ''four''))) (ex_options ex_number) k (ex_state ex_empty))"
    by (simp add: cacheMiss_no_entries ex_state_def ex_empty_def)
  show ?thesis
    using malformed_json_retry_bound [OF rm bad miss] by simp
qed

text \<open>
  With budget 1 and an answer whose content \<^verbatim>\<open>four\<close> is not JSON, the transport is
  called twice: the parse error was retried.
\<close>

theorem malformed_json_is_retried:
  "malformedJSON (ex_env (ex_always (ex_answer ''four''))) (ex_answer ''four'')
   \<and> length (transportCalls (events (createChatCompletion (ex_env (ex_always (ex_answer ''four'')))
        (ex_client False) (ex_options ex_number) 1 (ex_state None)))) = 2"
  by code_simp

section \<open>Transport errors\<close>

text \<open>
  Claim C4. For every request and every retry budget, if the invocation reaches the
  transport and the call fails with status 402, \<open>createChatCompletion\<close> makes exactly
  that one transport call and fails with the insufficient-balance error.
\<close>

theorem payment_required_never_retried:
  assumes "cacheMiss this options s"
    and "transport E (calls s) (attemptBody E this options s) = Inl err"
    and "status err = Some 402"
  shows "transportCalls (events (createChatCompletion E this options retries s))
           = [attemptBody E this options s]
       \<and> result (createChatCompletion E this options retries s)
           = Inl (Error ''DeepSeek API: Insufficient balance. Please add funds to your account.'')"
proof -
  have tb: "tryBlock E this options (mkCacheOptions this options) retries (inject E options s)
           (attemptBody E this options s)
        = (Thrown (APIError err), afterAttempt E options s, [TransportCall (attemptBody E this options s)])"
    using tryBlock_failure [of E "inject E options s"] assms(2) by (simp add: afterAttempt_def)
  show ?thesis
    using createChatCompletion_miss [OF assms(1) tb] assms(3) by (simp add: statusOf_def Let_def)
qed

theorem payment_required_never_retried_witness:
  "transportCalls (events (createChatCompletion (ex_env (ex_always (ex_failure 402)))
      (ex_client True) (ex_options ex_number) 3 (ex_state ex_empty)))
     = [attemptBody (ex_env (ex_always (ex_failure 402))) (ex_client True) (ex_options ex_number)
          (ex_state ex_empty)]
   \<and> result (createChatCompletion (ex_env (ex_always (ex_failure 402)))
      (ex_client True) (ex_options ex_number) 3 (ex_state ex_empty))
     = Inl (Error ''DeepSeek API: Insufficient balance. Please add funds to your account.'')"
proof -
  have miss: "cacheMiss (ex_client True) (ex_options ex_number) (ex_state ex_empty)"
    by (simp add: cacheMiss_no_entries ex_state_def ex_empty_def)
  have fails: "transport (ex_env (ex_always (ex_failure 402))) (calls (ex_state ex_empty))
      (attemptBody (ex_env (ex_always (ex_failure 402))) (ex_client True) (ex_options ex_number)
         (ex_state ex_empty))
      = Inl \<lparr> status = Some 402, error_message = Some ''failed'', code = None \<rparr>"
    by (simp add: ex_env_def ex_always_def ex_failure_def)
  show ?thesis
    using payment_required_never_retried [OF miss fails] by simp
qed

text \<open>
  Claim C8. When the invocation reaches the transport and the call fails with an error
  whose status is not 402: if the retry budget is greater than 0 the outcome is that of
  the re-invocation with the budget decremented by one (after the events of this
  attempt); otherwise the error object itself is what the caller gets.
\<close>

theorem transport_error_retried_until_exhausted:
  assumes "cacheMiss this options s"
    and "transport E (calls s) (attemptBody E this options s) = Inl err"
    and "status err \<noteq> Some 402"
  shows "createChatCompletion E this options retries s =
     (if retries > 0
      then emit (lookupEvents this options s @
                 [Log ''deepseek'' ''creating chat completion'' 1,
                  TransportCall (attemptBody E this options s),
                  Log ''deepseek'' ''error creating chat completion'' 0])
             (createChatCompletion E this options (retries - 1) (afterAttempt E options s))
      else (Inl (APIError err), afterAttempt E options s,
            lookupEvents this options s @
            [Log ''deepseek'' ''creating chat completion'' 1,
             TransportCall (attemptBody E this options s),
             Log ''deepseek'' ''error creating chat completion'' 0]))"
proof -
  have tb: "tryBlock E this options (mkCacheOptions this options) retries (inject E options s)
           (attemptBody E this options s)
        = (Thrown (APIError err), afterAttempt E options s, [TransportCall (attemptBody E this options s)])"
    using tryBlock_failure [of E "inject E options s"] assms(2) by (simp add: afterAttempt_def)
  show ?thesis
    using createChatCompletion_thrown [OF assms(1) tb] assms(3) by (simp add: statusOf_def)
qed

theorem transport_error_retried_until_exhausted_witness:
  "createChatCompletion (ex_env (ex_always (ex_failure 500))) (ex_client False) (ex_options ex_number) 1
      (ex_state None)
    = emit (lookupEvents (ex_client False) (ex_options ex_number) (ex_state None) @
            [Log ''deepseek'' ''creating chat completion'' 1,
             TransportCall (attemptBody (ex_env (ex_always (ex_failure 500))) (ex_client False)
                (ex_options ex_number) (ex_state None)),
             Log ''deepseek'' ''error creating chat completion'' 0])
        (createChatCompletion (ex_env (ex_always (ex_failure 500))) (ex_client False)
           (ex_options ex_number) 0
           (afterAttempt (ex_env (ex_always (ex_failure 500))) (ex_options ex_number) (ex_state None)))
   \<and> result (createChatCompletion (ex_env (ex_always (ex_failure 500))) (ex_client False)
        (ex_options ex_number) 0 (ex_state None))
     = Inl (APIError \<lparr> status = Some 500, error_message = Some ''failed'', code = None \<rparr>)"
proof -
  have miss: "cacheMiss (ex_client False) (ex_options ex_number) (ex_state None)"
    by (simp add: cacheMiss_def ex_client_def)
  have fails: "transport (ex_env (ex_always (ex_failure 500))) (calls (ex_state None))
      (attemptBody (ex_env (ex_always (ex_failure 500))) (ex_client False) (ex_options ex_number)
         (ex_state None))
      = Inl \<lparr> status = Some 500, error_message = Some ''failed'', code = None \<rparr>"
    by (simp add: ex_env_def ex_always_def ex_failure_def)
  have other: "status \<lparr> status = Some 500, error_message = Some ''failed'', code = None \<rparr> \<noteq> Some 402"
    by simp
  show ?thesis
    using transport_error_retried_until_exhausted [OF miss fails other, of 1]
      transport_error_retried_until_exhausted [OF miss fails other, of 0]
    by simp
qed

text \<open>
  Summed over a run in which every call fails that way: budget \<open>n\<close> gives \<open>n + 1\<close> calls,
  and the caller gets the error of the last one.
\<close>

lemma otherFailureD:
  "otherFailure x \<Longrightarrow> \<exists>err. x = Inl err \<and> status err \<noteq> Some 402"
  by (cases x) (simp_all add: otherFailure_def)

lemma transport_failures_exhaust_budget:
  assumes "\<forall>i b. otherFailure (transport E i b)"
    and "\<forall>k\<le>n. cacheMiss this options (afterAttempts E options k s)"
  shows "length (transportCalls (events (createChatCompletion E this options (int n) s))) = n + 1
       \<and> result (createChatCompletion E this options (int n) s)
           = map_sum APIError Raw
               (transport E (calls s + n) (attemptBody E this options (afterAttempts E options n s)))"
  using assms(2)
proof (induction n arbitrary: s)
  case 0
  then have miss: "cacheMiss this options s" by simp
  from assms(1) have "otherFailure (transport E (calls s) (attemptBody E this options s))"
    by blast
  from otherFailureD [OF this] obtain err where
    fails: "transport E (calls s) (attemptBody E this options s) = Inl err"
    and other: "status err \<noteq> Some 402"
    by blast
  have tb: "tryBlock E this options (mkCacheOptions this options) 0 (inject E options s)
           (attemptBody E this options s)
        = (Thrown (APIError err), afterAttempt E options s, [TransportCall (attemptBody E this options s)])"
    using tryBlock_failure [of E "inject E options s"] fails by (simp add: afterAttempt_def)
  show ?case
    using createChatCompletion_thrown [OF miss tb] other fails by (simp add: statusOf_def)
next
  case (Suc n)
  then have miss: "cacheMiss this options s" by (metis afterAttempts.simps(1) le0)
  have rest: "\<forall>k\<le>n. cacheMiss this options (afterAttempts E options k (afterAttempt E options s))"
    using Suc.prems by (metis Suc_le_mono afterAttempts.simps(2))
  from assms(1) have "otherFailure (transport E (calls s) (attemptBody E this options s))"
    by blast
  from otherFailureD [OF this] obtain err where
    fails: "transport E (calls s) (attemptBody E this options s) = Inl err"
    and other: "status err \<noteq> Some 402"
    by blast
  have tb: "tryBlock E this options (mkCacheOptions this options) (int (Suc n)) (inject E options s)
           (attemptBody E this options s)
        = (Thrown (APIError err), afterAttempt E options s, [TransportCall (attemptBody E this options s)])"
    using tryBlock_failure [of E "inject E options s"] fails by (simp add: afterAttempt_def)
  have "createChatCompletion E this options (int (Suc n)) s =
      emit (lookupEvents this options s @ [Log ''deepseek'' ''creating chat completion'' 1,
              TransportCall (attemptBody E this options s),
              Log ''deepseek'' ''error creating chat completion'' 0])
        (createChatCompletion E this options (int n) (afterAttempt E options s))"
    using createChatCompletion_thrown [OF miss tb] other by (simp add: statusOf_def)
  then show ?case using Suc.IH [OF rest] by (simp add: afterAttempt_def)
qed

section \<open>Cache writes\<close>

text \<open>
  Claim C6 asks that the key given to \<^verbatim>\<open>cache.set\<close> equal the key given to
  \<^verbatim>\<open>cache.get\<close>. \<^verbatim>\<open>cacheOptions.messages\<close> is the caller's array, not a copy, and
  the instruction is put into that array between the two calls. In the run below (one
  user message, \<^verbatim>\<open>z.number()\<close>, the transport answers \<^verbatim>\<open>4\<close>, empty cache) the
  lookup reads the key with the user message alone, the write stores under the key with
  the instruction in front, and the cache afterwards has nothing under the key that was
  looked up.
\<close>

theorem cache_written_under_mutated_key:
  "cacheGets (events (createChatCompletion (ex_env (ex_always (ex_answer ''4''))) (ex_client True)
        (ex_options ex_number) 0 (ex_state ex_empty))) = [ex_key]
   \<and> cacheSets (events (createChatCompletion (ex_env (ex_always (ex_answer ''4''))) (ex_client True)
        (ex_options ex_number) 0 (ex_state ex_empty)))
       = [(ex_key\<lparr>co_messages := [ex_instruction, ex_user]\<rparr>, Parsed (JNum 4))]
   \<and> co_messages ex_key = [ex_user]
   \<and> (case cache (world (createChatCompletion (ex_env (ex_always (ex_answer ''4''))) (ex_client True)
        (ex_options ex_number) 0 (ex_state ex_empty))) of
        None \<Rightarrow> False
      | Some m \<Rightarrow> m ex_key = None)"
  by code_simp

text \<open>
  Claim C7. In a run for a structured-output request the cache is written at most once;
  the write is the last event of the run, its value is the parsed data of a transport
  answer, that data passed schema validation, and it is the value the run returns. So a
  run that fails, and every attempt that is retried, writes nothing, and the raw response
  is never written.
\<close>

theorem cache_written_only_with_validated_value:
  assumes "response_model options = Some rm"
  shows "cacheSets (events (createChatCompletion E this options retries s)) = []
       \<or> (\<exists>pre k j rid i b t.
             events (createChatCompletion E this options retries s) = pre @ [CacheSet k (Parsed j) rid]
           \<and> cacheSets pre = []
           \<and> textualContent (transport E i b) = Some t
           \<and> JSON_parse E t = Some j
           \<and> validateZodSchema E (schema rm) j
           \<and> result (createChatCompletion E this options retries s) = Inr (Parsed j))"
    (is "?Q (createChatCompletion E this options retries s)")
proof (induction "nat retries" arbitrary: retries s rule: less_induct)
  case less
  have emitQ: "?Q (emit evs X)" if "cacheSets evs = []" "?Q X" for evs X
    using that by (cases X) (auto simp: emit_def events_def result_def)
  let ?pre = "lookupEvents this options s @ [Log ''deepseek'' ''creating chat completion'' 1]"
  from cacheMiss_or_hit [of this options s] show ?case
  proof
    assume miss: "cacheMiss this options s"
    obtain outcome s2 evs2 where tb:
      "tryBlock E this options (mkCacheOptions this options) retries (inject E options s)
         (attemptBody E this options s) = (outcome, s2, evs2)"
      by (metis prod_cases3)
    note run = createChatCompletion_miss [OF miss tb]
    note st = tryBlock_structured [OF assms tb]
    show ?thesis
    proof (cases outcome)
      case (Returned v)
      with st run show ?thesis by (auto simp: Let_def)
    next
      case RetryCall
      with tb have pos: "retries > 0" by (simp add: tryBlock_RetryCall_pos)
      then have "nat (retries - 1) < nat retries" by simp
      from less [OF this] have ih: "?Q (createChatCompletion E this options (retries - 1) s2)" .
      from st RetryCall have none: "cacheSets (?pre @ evs2) = []" by simp
      have eq: "createChatCompletion E this options retries s
          = emit (?pre @ evs2) (createChatCompletion E this options (retries - 1) s2)"
        using run RetryCall by (simp add: Let_def)
      show ?thesis unfolding eq by (rule emitQ [OF none ih])
    next
      case (Thrown e)
      with st have none: "cacheSets evs2 = []" by simp
      show ?thesis
      proof (cases "statusOf e \<noteq> Some 402 \<and> retries > 0")
        case True
        then have "nat (retries - 1) < nat retries" by simp
        from less [OF this] have ih: "?Q (createChatCompletion E this options (retries - 1) s2)" .
        from none
        have none': "cacheSets (?pre @ evs2 @ [Log ''deepseek'' ''error creating chat completion'' 0]) = []"
          by simp
        have eq: "createChatCompletion E this options retries s
            = emit (?pre @ evs2 @ [Log ''deepseek'' ''error creating chat completion'' 0])
                (createChatCompletion E this options (retries - 1) s2)"
          using run Thrown True by (simp add: Let_def)
        show ?thesis unfolding eq by (rule emitQ [OF none' ih])
      next
        case False
        then show ?thesis using run Thrown none by (auto simp: Let_def)
      qed
    qed
  next
    assume "\<exists>v evs0. enableCaching this \<and> truthy v \<and> cacheSets evs0 = [] \<and> transportCalls evs0 = []
      \<and> cacheGet s (mkCacheOptions this options) (requestId options) = (Some v, evs0)"
    then obtain v evs0 where h: "enableCaching this" "truthy v" "cacheSets evs0 = []"
      "cacheGet s (mkCacheOptions this options) (requestId options) = (Some v, evs0)" by blast
    from createChatCompletion_hit [OF h(1) h(4) h(2)] h(3) show ?thesis by simp
  qed
qed

theorem cache_written_only_with_validated_value_witness:
  "(cacheSets (events (createChatCompletion (ex_env (ex_always (ex_answer ''4''))) (ex_client True)
        (ex_options ex_number) 1 (ex_state ex_empty))) = []
    \<or> (\<exists>pre k j rid i b t.
          events (createChatCompletion (ex_env (ex_always (ex_answer ''4''))) (ex_client True)
            (ex_options ex_number) 1 (ex_state ex_empty)) = pre @ [CacheSet k (Parsed j) rid]
        \<and> cacheSets pre = []
        \<and> textualContent (transport (ex_env (ex_always (ex_answer ''4''))) i b) = Some t
        \<and> JSON_parse (ex_env (ex_always (ex_answer ''4''))) t = Some j
        \<and> validateZodSchema (ex_env (ex_always (ex_answer ''4'')))
             (schema \<lparr> model_name = ''answer'', schema = ZNumber \<rparr>) j
        \<and> result (createChatCompletion (ex_env (ex_always (ex_answer ''4''))) (ex_client True)
            (ex_options ex_number) 1 (ex_state ex_empty)) = Inr (Parsed j)))
   \<and> map snd (cacheSets (events (createChatCompletion (ex_env (ex_always (ex_answer ''4'')))
        (ex_client True) (ex_options ex_number) 1 (ex_state ex_empty)))) = [Parsed (JNum 4)]"
proof -
  have rm: "response_model (ex_options ex_number) = Some \<lparr> model_name = ''answer'', schema = ZNumber \<rparr>"
    by (simp add: ex_options_def ex_number_def)
  have run: "map snd (cacheSets (events (createChatCompletion (ex_env (ex_always (ex_answer ''4'')))
        (ex_client True) (ex_options ex_number) 1 (ex_state ex_empty)))) = [Parsed (JNum 4)]"
    by code_simp
  show ?thesis
    using cache_written_only_with_validated_value [OF rm] run by blast
qed

section \<open>Flattening of message content\<close>

lemma nonempty_partTexts:
  "filter (\<lambda>t. t \<noteq> []) (map partText cs) = filter (\<lambda>t. t \<noteq> []) (textParts cs)"
  by (induction cs rule: textParts.induct) (simp_all add: partText_def)

lemma tryBlock_heap:
  "tryBlock E this options co retries s b = (outcome, s2, evs2) \<Longrightarrow> heap s2 = heap s"
  by (auto simp: tryBlock_def cacheSet_def Let_def
      split: sum.splits option.splits list.splits if_splits prod.splits)

lemma heap_inject:
  "\<exists>pre. heap (inject E options s) (messages options) = pre @ heap s (messages options)"
  by (cases "response_model options") (simp_all add: inject_def unshift_def)

text \<open>
  Every list of messages the run transmits is the formatted array of the request with,
  at most, instructions in front of it.
\<close>

lemma transmitted_lists_end_with_request:
  "b \<in> set (transportCalls (events (createChatCompletion E this options retries s)))
   \<Longrightarrow> \<exists>pre. body_messages b = formattedMessages (pre @ heap s (messages options))"
proof (induction "nat retries" arbitrary: retries s rule: less_induct)
  case less
  from cacheMiss_or_hit [of this options s] show ?case
  proof
    assume miss: "cacheMiss this options s"
    obtain outcome s2 evs2 where tb:
      "tryBlock E this options (mkCacheOptions this options) retries (inject E options s)
         (attemptBody E this options s) = (outcome, s2, evs2)"
      by (metis prod_cases3)
    note run = createChatCompletion_miss [OF miss tb]
    note one = tryBlock_transportCalls [OF tb]
    from heap_inject [of E options s] obtain pre0 where
      pre0: "heap (inject E options s) (messages options) = pre0 @ heap s (messages options)" ..
    have h2: "heap s2 (messages options) = pre0 @ heap s (messages options)"
      using tryBlock_heap [OF tb] pre0 by simp
    have first: "\<exists>pre. body_messages (attemptBody E this options s)
        = formattedMessages (pre @ heap s (messages options))"
      using pre0 by (auto simp: attemptBody_def mkBody_def)
    have later: "\<exists>pre. body_messages b = formattedMessages (pre @ heap s (messages options))"
      if pos: "retries > 0"
        and mem: "b \<in> set (transportCalls (events (createChatCompletion E this options (retries - 1) s2)))"
    proof -
      from pos have "nat (retries - 1) < nat retries" by simp
      from less.hyps [OF this mem] obtain pre where
        "body_messages b = formattedMessages (pre @ heap s2 (messages options))" ..
      then have "body_messages b = formattedMessages ((pre @ pre0) @ heap s (messages options))"
        using h2 by simp
      then show ?thesis ..
    qed
    show ?thesis
    proof (cases outcome)
      case (Returned v)
      with run one less.prems first show ?thesis by (simp add: Let_def)
    next
      case RetryCall
      with tb have pos: "retries > 0" by (simp add: tryBlock_RetryCall_pos)
      from run RetryCall one less.prems
      have "b = attemptBody E this options s
          \<or> b \<in> set (transportCalls (events (createChatCompletion E this options (retries - 1) s2)))"
        by (simp add: Let_def)
      then show ?thesis using first later [OF pos] by blast
    next
      case (Thrown e)
      show ?thesis
      proof (cases "statusOf e \<noteq> Some 402 \<and> retries > 0")
        case True
        with run Thrown one less.prems
        have "b = attemptBody E this options s
            \<or> b \<in> set (transportCalls (events (createChatCompletion E this options (retries - 1) s2)))"
          by (simp add: Let_def)
        then show ?thesis using first later True by blast
      next
        case False
        with run Thrown one less.prems have "b = attemptBody E this options s"
          by (auto simp: Let_def split: if_splits)
        then show ?thesis using first by simp
      qed
    qed
  next
    assume "\<exists>v evs0. enableCaching this \<and> truthy v \<and> cacheSets evs0 = [] \<and> transportCalls evs0 = []
      \<and> cacheGet s (mkCacheOptions this options) (requestId options) = (Some v, evs0)"
    then obtain v evs0 where h: "enableCaching this" "truthy v" "transportCalls evs0 = []"
      "cacheGet s (mkCacheOptions this options) (requestId options) = (Some v, evs0)" by blast
    from createChatCompletion_hit [OF h(1) h(4) h(2)] h(3) less.prems show ?thesis by simp
  qed
qed

text \<open>
  Claim C9, amended. For every message of the request whose content is a list of parts,
  and every transport call of the run, the content transmitted for that message is the
  non-empty text parts in their order, joined by newline; non-text parts and empty text
  parts are dropped. (The messages of the request are the last entries of the
  transmitted list, so message \<open>i\<close> is found counting from its end.)
\<close>

theorem flattening_keeps_nonempty_text_parts:
  assumes "b \<in> set (transportCalls (events (createChatCompletion E this options retries s)))"
    and "i < length (heap s (messages options))"
    and "content (heap s (messages options) ! i) = Parts cs"
  shows "param_content
           (body_messages b ! (length (body_messages b) - length (heap s (messages options)) + i))
       = join ''\<newline>'' (filter (\<lambda>t. t \<noteq> []) (textParts cs))"
proof -
  from transmitted_lists_end_with_request [OF assms(1)] obtain pre where
    b: "body_messages b = formattedMessages (pre @ heap s (messages options))" ..
  then have "length (body_messages b) - length (heap s (messages options)) = length pre"
    by (simp add: formattedMessages_def)
  then have "body_messages b ! (length (body_messages b) - length (heap s (messages options)) + i)
      = formatMessage (heap s (messages options) ! i)"
    using b assms(2) by (simp add: formattedMessages_def nth_append)
  then show ?thesis
    using assms(3) by (simp add: formatMessage_def nonempty_partTexts)
qed

theorem flattening_keeps_nonempty_text_parts_witness:
  "param_content
     (body_messages (transportCalls (events (createChatCompletion
          (ex_env (ex_always (ex_answer ''true''))) (ex_client False) (ex_options ex_number) 1
          (ex_state None\<lparr>heap := \<lambda>a. [ex_user, ex_parts]\<rparr>))) ! 1)
      ! (length (body_messages (transportCalls (events (createChatCompletion
          (ex_env (ex_always (ex_answer ''true''))) (ex_client False) (ex_options ex_number) 1
          (ex_state None\<lparr>heap := \<lambda>a. [ex_user, ex_parts]\<rparr>))) ! 1))
           - length [ex_user, ex_parts] + 1))
     = ''a\<newline>b''"
proof -
  have two: "length (transportCalls (events (createChatCompletion
          (ex_env (ex_always (ex_answer ''true''))) (ex_client False) (ex_options ex_number) 1
          (ex_state None\<lparr>heap := \<lambda>a. [ex_user, ex_parts]\<rparr>)))) = 2"
    by code_simp
  then have sent: "transportCalls (events (createChatCompletion
          (ex_env (ex_always (ex_answer ''true''))) (ex_client False) (ex_options ex_number) 1
          (ex_state None\<lparr>heap := \<lambda>a. [ex_user, ex_parts]\<rparr>))) ! 1
      \<in> set (transportCalls (events (createChatCompletion
          (ex_env (ex_always (ex_answer ''true''))) (ex_client False) (ex_options ex_number) 1
          (ex_state None\<lparr>heap := \<lambda>a. [ex_user, ex_parts]\<rparr>))))"
    by simp
  have len: "1 < length (heap (ex_state None\<lparr>heap := \<lambda>a. [ex_user, ex_parts]\<rparr>)
      (messages (ex_options ex_number)))"
    by simp
  have parts: "content (heap (ex_state None\<lparr>heap := \<lambda>a. [ex_user, ex_parts]\<rparr>)
      (messages (ex_options ex_number)) ! 1)
      = Parts [TextPart ''a'', NonTextPart ''u'', TextPart [], TextPart ''b'']"
    by (simp add: ex_parts_def)
  show ?thesis
    using flattening_keeps_nonempty_text_parts [OF sent len parts] by simp
qed

text \<open>
  The claim as first worded keeps every text part. \<^verbatim>\<open>filter(Boolean)\<close> also removes
  a text part whose text is empty, so the parts \<^verbatim>\<open>a\<close>, empty, \<^verbatim>\<open>b\<close> are sent with
  one newline where joining all text parts gives two.
\<close>

theorem empty_text_part_is_dropped:
  "param_content (formatMessage
      \<lparr> role = ''user'', content = Parts [TextPart ''a'', TextPart [], TextPart ''b''] \<rparr>)
     = ''a\<newline>b''
   \<and> spec_flatten [TextPart ''a'', TextPart [], TextPart ''b''] = ''a\<newline>\<newline>b''"
  by (simp add: formatMessage_def partText_def spec_flatten_def)

section \<open>The correlation identifier\<close>

lemma tryBlock_requestId:
  "tryBlock E this (options\<lparr>requestId := r\<rparr>) co retries s b =
     (case tryBlock E this options co retries s b of
        (outcome, s2, evs2) \<Rightarrow> (outcome, s2, map (withRequestId r) evs2))"
  by (auto simp: tryBlock_def cacheSet_def Let_def
      split: sum.splits option.splits list.splits if_splits prod.splits)

lemma cacheGet_requestId:
  "cacheGet s co r = (case cacheGet s co rid of (v, evs) \<Rightarrow> (v, map (withRequestId r) evs))"
  by (simp add: cacheGet_def split: option.splits)

lemma mkCacheOptions_requestId [simp]:
  "mkCacheOptions this (options\<lparr>requestId := r\<rparr>) = mkCacheOptions this options"
  by (simp add: mkCacheOptions_def)

lemma inject_requestId [simp]: "inject E (options\<lparr>requestId := r\<rparr>) s = inject E options s"
  by (simp add: inject_def split: option.splits)

lemma attemptBody_requestId [simp]:
  "attemptBody E this (options\<lparr>requestId := r\<rparr>) s = attemptBody E this options s"
  by (simp add: attemptBody_def mkBody_def)

lemma cacheMiss_requestId [simp]:
  "cacheMiss this (options\<lparr>requestId := r\<rparr>) s = cacheMiss this options s"
  by (simp add: cacheMiss_def cacheGet_def split: option.splits)

lemma lookupEvents_requestId [simp]:
  "lookupEvents this (options\<lparr>requestId := r\<rparr>) s = map (withRequestId r) (lookupEvents this options s)"
  by (simp add: lookupEvents_def cacheGet_def split: option.splits)

lemma map_withRequestId_emit:
  "(case emit evs X of (res, s', evs') \<Rightarrow> (res, s', map (withRequestId r) evs'))
     = emit (map (withRequestId r) evs) (case X of (res, s', evs') \<Rightarrow> (res, s', map (withRequestId r) evs'))"
  by (cases X) (simp add: emit_def)

lemma cacheGets_withRequestId [simp]: "cacheGets (map (withRequestId r) evs) = cacheGets evs"
  by (induction evs rule: cacheGets.induct) simp_all

lemma cacheSets_withRequestId [simp]: "cacheSets (map (withRequestId r) evs) = cacheSets evs"
  by (induction evs rule: cacheSets.induct) simp_all

text \<open>
  A run with another \<^verbatim>\<open>requestId\<close> is the same run: same result, same world, and the
  same events but for the identifier handed to the cache.
\<close>

lemma run_requestId:
  "createChatCompletion E this (options\<lparr>requestId := r\<rparr>) retries s =
     (case createChatCompletion E this options retries s of
        (res, s', evs) \<Rightarrow> (res, s', map (withRequestId r) evs))"
proof (induction "nat retries" arbitrary: retries s rule: less_induct)
  case less
  let ?o = "options\<lparr>requestId := r\<rparr>"
  from cacheMiss_or_hit [of this options s] show ?case
  proof
    assume miss: "cacheMiss this options s"
    then have miss': "cacheMiss this ?o s" by simp
    obtain outcome s2 evs2 where tb:
      "tryBlock E this options (mkCacheOptions this options) retries (inject E options s)
         (attemptBody E this options s) = (outcome, s2, evs2)"
      by (metis prod_cases3)
    have tb': "tryBlock E this ?o (mkCacheOptions this ?o) retries (inject E ?o s)
         (attemptBody E this ?o s) = (outcome, s2, map (withRequestId r) evs2)"
      using tb by (simp add: tryBlock_requestId)
    note run = createChatCompletion_miss [OF miss tb]
    note run' = createChatCompletion_miss [OF miss' tb']
    show ?thesis
    proof (cases outcome)
      case (Returned v)
      then show ?thesis using run run' by (simp add: Let_def)
    next
      case RetryCall
      with tb have "retries > 0" by (simp add: tryBlock_RetryCall_pos)
      then have "nat (retries - 1) < nat retries" by simp
      from less [OF this, of s2] show ?thesis
        using run run' RetryCall by (simp add: Let_def map_withRequestId_emit)
    next
      case (Thrown e)
      show ?thesis
      proof (cases "statusOf e \<noteq> Some 402 \<and> retries > 0")
        case True
        then have "nat (retries - 1) < nat retries" by simp
        from less [OF this, of s2] show ?thesis
          using run run' Thrown True by (simp add: Let_def map_withRequestId_emit)
      next
        case False
        then show ?thesis using run run' Thrown by (auto simp: Let_def)
      qed
    qed
  next
    assume "\<exists>v evs0. enableCaching this \<and> truthy v \<and> cacheSets evs0 = [] \<and> transportCalls evs0 = []
      \<and> cacheGet s (mkCacheOptions this options) (requestId options) = (Some v, evs0)"
    then obtain v evs0 where h: "enableCaching this" "truthy v"
      "cacheGet s (mkCacheOptions this options) (requestId options) = (Some v, evs0)" by blast
    have h': "cacheGet s (mkCacheOptions this ?o) (requestId ?o) = (Some v, map (withRequestId r) evs0)"
      using h(3) cacheGet_requestId [of s "mkCacheOptions this options" r "requestId options"] by simp
    show ?thesis
      using createChatCompletion_hit [OF h(1) h(3) h(2)] createChatCompletion_hit [OF h(1) h' h(2)]
      by simp
  qed
qed

text \<open>
  Claim C10. Two requests that differ only in \<^verbatim>\<open>requestId\<close> have the same cache key: the
  key is built from the model id, the messages, temperature, top_p, frequency_penalty,
  presence_penalty and the response model. Hence the keys of all cache reads and writes
  of the two runs, and their results, are the same.
\<close>

theorem cache_key_ignores_requestId:
  "observe h (mkCacheOptions this (options\<lparr>requestId := r\<rparr>)) = observe h (mkCacheOptions this options)
   \<and> cacheGets (events (createChatCompletion E this (options\<lparr>requestId := r\<rparr>) retries s))
       = cacheGets (events (createChatCompletion E this options retries s))
   \<and> cacheSets (events (createChatCompletion E this (options\<lparr>requestId := r\<rparr>) retries s))
       = cacheSets (events (createChatCompletion E this options retries s))
   \<and> result (createChatCompletion E this (options\<lparr>requestId := r\<rparr>) retries s)
       = result (createChatCompletion E this options retries s)"
proof -
  have key: "observe h (mkCacheOptions this (options\<lparr>requestId := r\<rparr>))
      = observe h (mkCacheOptions this options)"
    by (simp add: mkCacheOptions_def observe_def)
  obtain res s' evs where run: "createChatCompletion E this options retries s = (res, s', evs)"
    by (metis prod_cases3)
  then have "createChatCompletion E this (options\<lparr>requestId := r\<rparr>) retries s
      = (res, s', map (withRequestId r) evs)"
    by (simp add: run_requestId)
  with run key show ?thesis by simp
qed

end
